theory Spec2Isabelle
  imports Main
begin

section \<open>A Slack Events API webhook: verification middleware and event handler\<close>

text \<open>
  The program registers one route, \<open>POST /slack/events\<close>, behind one middleware
  (\<open>router.Use(verifySlackRequestMiddleware)\<close>, then \<open>router.POST\<close> of
  \<open>/slack/events\<close> with \<open>handleSlackEvents\<close>). The middleware reads the body,
  checks the request signature with the signing secret, checks the age of the
  timestamp header and then lets the handler run; the handler parses the payload and
  answers.

  The repository holds more than one copy of the program; in one of them the body of
  \<open>handleSlackEvents\<close> is empty. The model follows the copy whose handler is written
  out.

  The functions of \<open>slack-go\<close>, \<open>encoding/json\<close> and the Slack Web API that the program
  calls are not part of the repository. They are parameters of the model (the record
  \<open>Lib\<close>), so every theorem below holds whatever these functions return. What the
  program calls from \<open>strconv\<close>, \<open>time\<close>, \<open>io\<close> and \<open>gin\<close> is modelled directly.
\<close>

subsection \<open>Errors\<close>

datatype error =
    ErrSyntax          \<comment> \<open>\<open>strconv.ErrSyntax\<close>\<close>
  | ErrRange           \<comment> \<open>\<open>strconv.ErrRange\<close>\<close>
  | LibError string    \<comment> \<open>any error value returned by a library call\<close>

subsection \<open>\<open>strconv.ParseInt(s, 10, 64)\<close>\<close>

text \<open>
  \<open>ParseUint\<close> walks the bytes left to right: a byte that is not a decimal digit is a
  syntax error; a value that leaves the range of \<open>uint64\<close> is a range error. \<open>ParseInt\<close>
  picks off one leading sign and checks the range of \<open>int64\<close>. The program calls it with
  base 10 and bit size 64 only, so both are fixed here.
\<close>

definition maxUint64 :: int where
  "maxUint64 = 2 ^ 64 - 1"

definition digit :: "char \<Rightarrow> int option" where
  "digit c = (let n = (of_char c :: int) in if 48 \<le> n \<and> n \<le> 57 then Some (n - 48) else None)"

fun ParseUint_loop :: "int \<Rightarrow> string \<Rightarrow> error + int" where
  "ParseUint_loop n [] = Inr n"
| "ParseUint_loop n (c # cs) =
     (case digit c of
        None \<Rightarrow> Inl ErrSyntax
      | Some d \<Rightarrow>
          if n \<ge> maxUint64 div 10 + 1 then Inl ErrRange
          else (let n1 = n * 10 + d in
                if n1 > maxUint64 then Inl ErrRange else ParseUint_loop n1 cs))"

definition ParseUint :: "string \<Rightarrow> error + int" where
  "ParseUint s = (if s = [] then Inl ErrSyntax else ParseUint_loop 0 s)"

definition ParseInt :: "string \<Rightarrow> error + int" where
  "ParseInt s =
     (if s = [] then Inl ErrSyntax
      else
        (let neg = (hd s = CHR ''-'');
             s' = (if hd s = CHR ''+'' \<or> hd s = CHR ''-'' then tl s else s)
         in case ParseUint s' of
              Inl e \<Rightarrow> Inl e
            | Inr un \<Rightarrow>
                if \<not> neg \<and> un \<ge> 2 ^ 63 then Inl ErrRange
                else if neg \<and> un > 2 ^ 63 then Inl ErrRange
                else Inr (if neg then - un else un)))"

subsection \<open>\<open>time.Unix\<close>, \<open>time.Since\<close> and durations\<close>

text \<open>
  A \<open>time.Time\<close> without monotonic reading stores the seconds since January 1 of year
  1 in an \<open>int64\<close> and the nanoseconds within the second. \<open>time.Unix(sec, nsec)\<close> stores
  \<open>sec + unixToInternal\<close>, an \<open>int64\<close> addition: it wraps around for \<open>sec\<close> within
  \<open>unixToInternal\<close> of the largest \<open>int64\<close> (the documentation of \<open>time.Unix\<close> says that
  not all \<open>sec\<close> values have a corresponding time value, and names \<open>1<<63-1\<close>).

  A \<open>Duration\<close> is an \<open>int64\<close> count of nanoseconds. \<open>t.Sub(u)\<close> is the exact
  difference when it fits a \<open>Duration\<close>; otherwise it is the smallest or the largest
  \<open>Duration\<close>, chosen by comparing the stored seconds (\<open>t.Before(u)\<close>).
  \<open>time.Since(u)\<close> is \<open>time.Now().Sub(u)\<close>; the clock reading \<open>now\<close> is an argument of
  the model.
\<close>

record Time =
  sec :: int     \<comment> \<open>seconds since January 1, year 1 (an \<open>int64\<close>)\<close>
  nsec :: int    \<comment> \<open>nanoseconds, in \<open>[0, 999999999]\<close>\<close>

definition unixToInternal :: int where
  "unixToInternal = 62135596800"

definition int64 :: "int \<Rightarrow> int" where
  \<comment> \<open>the value of an \<open>int64\<close> computation whose exact result is \<open>x\<close>\<close>
  "int64 x = (x + 2 ^ 63) mod 2 ^ 64 - 2 ^ 63"

definition Unix :: "int \<Rightarrow> int \<Rightarrow> Time" where
  \<comment> \<open>for \<open>0 \<le> n < 10^9\<close>; the program passes \<open>n = 0\<close>\<close>
  "Unix s n = \<lparr>sec = int64 (s + unixToInternal), nsec = n\<rparr>"

definition minDuration :: int where
  "minDuration = - (2 ^ 63)"

definition maxDuration :: int where
  "maxDuration = 2 ^ 63 - 1"

definition Second :: int where
  "Second = 1000000000"

definition Minute :: int where
  "Minute = 60 * Second"

definition Before :: "Time \<Rightarrow> Time \<Rightarrow> bool" where
  "Before t u = (sec t < sec u \<or> sec t = sec u \<and> nsec t < nsec u)"

definition Sub :: "Time \<Rightarrow> Time \<Rightarrow> int" where
  "Sub t u =
     (let d = (sec t - sec u) * Second + (nsec t - nsec u)
      in if minDuration \<le> d \<and> d \<le> maxDuration then d
         else if Before t u then minDuration
         else maxDuration)"

definition Since :: "Time \<Rightarrow> Time \<Rightarrow> int" where
  "Since now u = Sub now u"

definition valid_clock :: "Time \<Rightarrow> bool" where
  \<comment> \<open>a reading of the wall clock: a time of the common era whose seconds fit an
    \<open>int64\<close> below its largest value, nanoseconds in range\<close>
  "valid_clock now = (0 \<le> sec now \<and> sec now < 2 ^ 63 - 1 \<and> 0 \<le> nsec now \<and> nsec now < Second)"

definition age :: "Time \<Rightarrow> int \<Rightarrow> int" where
  \<comment> \<open>exact nanoseconds elapsed at \<open>now\<close> since Unix time \<open>t\<close> (seconds)\<close>
  "age now t = (sec now - unixToInternal - t) * Second + nsec now"

subsection \<open>Request, response and program state\<close>

text \<open>
  \<open>c.Request.Body\<close> is a reader: \<open>io.ReadAll\<close> drains it and returns its bytes, or the
  error the reader reports. A drained reader yields no bytes, so the middleware puts a
  fresh buffer over the bytes it read in its place.
\<close>

record Body =
  pending :: string            \<comment> \<open>bytes not yet read\<close>
  failure :: "error option"    \<comment> \<open>the error the reader reports, if any\<close>

definition ReadAll :: "Body \<Rightarrow> (error + string) \<times> Body" where
  "ReadAll r =
     (case failure r of
        Some e \<Rightarrow> (Inl e, r\<lparr>pending := []\<rparr>)
      | None \<Rightarrow> (Inr (pending r), r\<lparr>pending := []\<rparr>))"

definition NewBuffer :: "string \<Rightarrow> Body" where
  \<comment> \<open>\<open>io.NopCloser(bytes.NewBuffer(body))\<close>: reading it never fails\<close>
  "NewBuffer b = \<lparr>pending = b, failure = None\<rparr>"

type_synonym Header = "string \<rightharpoonup> string"

datatype Response =
    RespJSON int "(string \<times> string) list"   \<comment> \<open>\<open>c.JSON(code, gin.H{...})\<close>\<close>
  | RespData int string string              \<comment> \<open>\<open>c.Data(code, contentType, bytes)\<close>\<close>
  | RespStatus int                          \<comment> \<open>\<open>c.Status(code)\<close>\<close>

fun status_of :: "Response \<Rightarrow> int" where
  "status_of (RespJSON code _) = code"
| "status_of (RespData code _ _) = code"
| "status_of (RespStatus code) = code"

text \<open>
  The state holds the \<open>gin.Context\<close> of the request (body, headers, the responses
  written so far, the abort flag), the two global variables of the program, the
  messages posted through the Web API and the lines logged. Log lines are recorded by
  their fixed text; the formatted error value is left out.
\<close>

record State =
  Request_Body :: Body
  Request_Header :: Header
  responses :: "Response list"
  aborted :: bool
  slackClient :: string                       \<comment> \<open>the client, by its bot token\<close>
  slackSigningSecret :: string
  outbound :: "(string \<times> string) list"        \<comment> \<open>(channel, text) of each \<open>PostMessage\<close> call\<close>
  logs :: "string list"

definition GetHeader :: "State \<Rightarrow> string \<Rightarrow> string" where
  "GetHeader s k = (case Request_Header s k of None \<Rightarrow> [] | Some v \<Rightarrow> v)"

definition JSON :: "int \<Rightarrow> (string \<times> string) list \<Rightarrow> State \<Rightarrow> State" where
  "JSON code obj s = s\<lparr>responses := responses s @ [RespJSON code obj]\<rparr>"

definition Data :: "int \<Rightarrow> string \<Rightarrow> string \<Rightarrow> State \<Rightarrow> State" where
  "Data code ctype bytes s = s\<lparr>responses := responses s @ [RespData code ctype bytes]\<rparr>"

definition Status :: "int \<Rightarrow> State \<Rightarrow> State" where
  "Status code s = s\<lparr>responses := responses s @ [RespStatus code]\<rparr>"

definition Abort :: "State \<Rightarrow> State" where
  "Abort s = s\<lparr>aborted := True\<rparr>"

definition Log :: "string \<Rightarrow> State \<Rightarrow> State" where
  "Log msg s = s\<lparr>logs := logs s @ [msg]\<rparr>"

definition StatusBadRequest :: int where
  "StatusBadRequest = 400"

definition StatusUnauthorized :: int where
  "StatusUnauthorized = 401"

definition StatusInternalServerError :: int where
  "StatusInternalServerError = 500"

definition StatusOK :: int where
  "StatusOK = 200"

subsection \<open>Events and the library calls\<close>

record AppMentionEvent =
  User :: string
  Text :: string
  TimeStamp :: string
  Channel :: string

datatype InnerEventData =
    AppMention AppMentionEvent    \<comment> \<open>\<open>*slackevents.AppMentionEvent\<close>\<close>
  | OtherEvent                    \<comment> \<open>a value of any other dynamic type\<close>

record EventsAPIEvent =
  Type :: string
  InnerEvent_Type :: string
  InnerEvent_Data :: InnerEventData

record ChallengeResponse =
  Challenge :: string

definition URLVerification :: string where
  "URLVerification = ''url_verification''"

definition CallbackEvent :: string where
  "CallbackEvent = ''event_callback''"

text \<open>
  The library calls of the program. \<open>'v\<close> is the state of a \<open>SecretsVerifier\<close>.
  \<open>Write\<close> feeds bytes to the verifier's hash and returns the verifier it has become;
  \<open>Ensure\<close> compares the hash with the signature of the request. \<open>Unmarshal\<close> is
  \<open>json.Unmarshal\<close> into a \<open>ChallengeResponse\<close>. \<open>PostMessage\<close> is the answer of the
  Web API to a post by the given client to a channel with a text.
\<close>

record 'v Lib =
  NewSecretsVerifier :: "Header \<Rightarrow> string \<Rightarrow> error + 'v"
  Write :: "'v \<Rightarrow> string \<Rightarrow> error + 'v"
  Ensure :: "'v \<Rightarrow> error option"
  ParseEvent :: "string \<Rightarrow> error + EventsAPIEvent"
  Unmarshal :: "string \<Rightarrow> error + ChallengeResponse"
  PostMessage :: "string \<Rightarrow> string \<Rightarrow> string \<Rightarrow> error option"

subsection \<open>\<open>handleSlackEvents\<close>\<close>

definition mention_reply :: "AppMentionEvent \<Rightarrow> string" where
  \<comment> \<open>\<open>fmt.Sprintf\<close> of \<open>Hello <@%s>! You mentioned me: %s\<close> with \<open>ev.User\<close> and \<open>ev.Text\<close>\<close>
  "mention_reply ev = ''Hello <@'' @ User ev @ ''>! You mentioned me: '' @ Text ev"

definition post_reply :: "'v Lib \<Rightarrow> AppMentionEvent \<Rightarrow> State \<Rightarrow> State" where
  \<comment> \<open>the \<open>AppMentionEvent\<close> case: one \<open>PostMessage\<close> call; its error is only logged\<close>
  "post_reply lib ev s =
     (let s1 = Log ''Received app_mention event'' s;
          err = PostMessage lib (slackClient s1) (Channel ev) (mention_reply ev);
          s2 = s1\<lparr>outbound := outbound s1 @ [(Channel ev, mention_reply ev)]\<rparr>
      in case err of
           Some e \<Rightarrow> Log ''Error posting message to Slack'' s2
         | None \<Rightarrow> s2)"

definition handle_callback :: "'v Lib \<Rightarrow> EventsAPIEvent \<Rightarrow> State \<Rightarrow> State" where
  \<comment> \<open>the type switch on \<open>innerEvent.Data\<close>\<close>
  "handle_callback lib ev s =
     (case InnerEvent_Data ev of
        AppMention m \<Rightarrow> post_reply lib m s
      | OtherEvent \<Rightarrow> Log ''Unsupported event type'' s)"

definition handleSlackEvents :: "'v Lib \<Rightarrow> State \<Rightarrow> State" where
  "handleSlackEvents lib s =
     (let (r, rest) = ReadAll (Request_Body s);
          s0 = s\<lparr>Request_Body := rest\<rparr>
      in case r of
           Inl e \<Rightarrow> JSON StatusBadRequest [(''error'', ''Failed to read request body'')] s0
         | Inr body \<Rightarrow>
             (case ParseEvent lib body of
                Inl e \<Rightarrow>
                  JSON StatusInternalServerError [(''error'', ''Internal server error'')]
                    (Log ''Error parsing Slack event'' s0)
              | Inr eventsAPIEvent \<Rightarrow>
                  if Type eventsAPIEvent = URLVerification then
                    (case Unmarshal lib body of
                       Inl e \<Rightarrow>
                         JSON StatusInternalServerError
                           [(''error'', ''Failed to unmarshal challenge response'')] s0
                     | Inr r \<Rightarrow> Data StatusOK ''text/plain'' (Challenge r) s0)
                  else
                    Status StatusOK
                      (if Type eventsAPIEvent = CallbackEvent
                       then handle_callback lib eventsAPIEvent s0
                       else s0)))"

subsection \<open>\<open>verifySlackRequestMiddleware\<close>\<close>

text \<open>
  \<open>next\<close> stands for \<open>c.Next()\<close>: the handlers still pending on the route. Every other
  path ends in \<open>c.Abort()\<close> and \<open>return\<close>, after which gin calls no pending handler.
\<close>

definition too_old :: "Time \<Rightarrow> int \<Rightarrow> bool" where
  \<comment> \<open>the condition \<open>time.Since(time.Unix(t, 0)) > 5*time.Minute\<close>\<close>
  "too_old now t = (Since now (Unix t 0) > 5 * Minute)"

definition verifySlackRequestMiddleware ::
  "'v Lib \<Rightarrow> Time \<Rightarrow> (State \<Rightarrow> State) \<Rightarrow> State \<Rightarrow> State" where
  "verifySlackRequestMiddleware lib now next s =
     (let (r, rest) = ReadAll (Request_Body s);
          s0 = s\<lparr>Request_Body := rest\<rparr>
      in case r of
           Inl e \<Rightarrow>
             Abort (JSON StatusBadRequest [(''error'', ''Failed to read request body'')] s0)
         | Inr body \<Rightarrow>
             (let s1 = s0\<lparr>Request_Body := NewBuffer body\<rparr>;
                  timestamp = GetHeader s1 ''X-Slack-Request-Timestamp''
              in case NewSecretsVerifier lib (Request_Header s1) (slackSigningSecret s1) of
                   Inl e \<Rightarrow>
                     Abort (JSON StatusInternalServerError [(''error'', ''Internal server error'')]
                       (Log ''Error creating verifier'' s1))
                 | Inr verifier \<Rightarrow>
                     (case Write lib verifier body of
                        Inl e \<Rightarrow>
                          Abort (JSON StatusInternalServerError
                            [(''error'', ''Internal server error'')]
                            (Log ''Error writing body to verifier'' s1))
                      | Inr verifier' \<Rightarrow>
                          (case Ensure lib verifier' of
                             Some e \<Rightarrow>
                               Abort (JSON StatusUnauthorized
                                 [(''error'', ''Slack signature verification failed'')]
                                 (Log ''Slack signature verification failed'' s1))
                           | None \<Rightarrow>
                               (case ParseInt timestamp of
                                  Inl e \<Rightarrow>
                                    Abort (JSON StatusBadRequest [(''error'', ''Invalid timestamp'')]
                                      (Log ''Invalid timestamp'' s1))
                                | Inr t \<Rightarrow>
                                    if too_old now t then
                                      Abort (JSON StatusUnauthorized
                                        [(''error'', ''Request timestamp too old'')]
                                        (Log ''Request timestamp too old (replay attack potential)'' s1))
                                    else next s1)))))"

subsection \<open>The route\<close>

definition serve :: "'v Lib \<Rightarrow> Time \<Rightarrow> State \<Rightarrow> State" where
  \<comment> \<open>a request to \<open>POST /slack/events\<close>: the middleware, with the handler pending\<close>
  "serve lib now s = verifySlackRequestMiddleware lib now (handleSlackEvents lib) s"

subsection \<open>What has been checked, and what has failed\<close>

text \<open>
  \<open>signature_check\<close> names how far the signature verification of a request gets, in
  the order the middleware proceeds: the body is read, a verifier is created from the
  headers and the signing secret, the body is written to it, and \<open>Ensure\<close> compares.
  A request \<open>passes\<close> the middleware when its signature is verified, its timestamp
  header parses and the timestamp is not too old.
\<close>

datatype SignatureCheck =
    BodyUnreadable     \<comment> \<open>\<open>io.ReadAll\<close> returned an error\<close>
  | NoVerifier         \<comment> \<open>\<open>slack.NewSecretsVerifier\<close> returned an error\<close>
  | WriteFailed        \<comment> \<open>\<open>verifier.Write\<close> returned an error\<close>
  | Mismatch           \<comment> \<open>\<open>verifier.Ensure\<close> returned an error\<close>
  | Verified           \<comment> \<open>\<open>verifier.Ensure\<close> returned no error\<close>

definition signature_check :: "'v Lib \<Rightarrow> State \<Rightarrow> SignatureCheck" where
  "signature_check lib s =
     (case fst (ReadAll (Request_Body s)) of
        Inl e \<Rightarrow> BodyUnreadable
      | Inr body \<Rightarrow>
          (case NewSecretsVerifier lib (Request_Header s) (slackSigningSecret s) of
             Inl e \<Rightarrow> NoVerifier
           | Inr verifier \<Rightarrow>
               (case Write lib verifier body of
                  Inl e \<Rightarrow> WriteFailed
                | Inr verifier' \<Rightarrow>
                    (case Ensure lib verifier' of Some e \<Rightarrow> Mismatch | None \<Rightarrow> Verified))))"

definition passes :: "'v Lib \<Rightarrow> Time \<Rightarrow> State \<Rightarrow> bool" where
  "passes lib now s =
     (signature_check lib s = Verified \<and>
      (case ParseInt (GetHeader s ''X-Slack-Request-Timestamp'') of
         Inl e \<Rightarrow> False
       | Inr t \<Rightarrow> \<not> too_old now t))"

definition body_bytes :: "State \<Rightarrow> string" where
  \<comment> \<open>the bytes \<open>io.ReadAll\<close> returns for the request body (none when the read fails)\<close>
  "body_bytes s = (case fst (ReadAll (Request_Body s)) of Inl e \<Rightarrow> [] | Inr body \<Rightarrow> body)"

definition restored :: "State \<Rightarrow> State" where
  \<comment> \<open>the state after \<open>c.Request.Body = io.NopCloser(bytes.NewBuffer(body))\<close>\<close>
  "restored s = s\<lparr>Request_Body := NewBuffer (body_bytes s)\<rparr>"

text \<open>
  The failures the program detects while it processes a request, and the first one it
  meets on a request (\<open>None\<close> when it meets none). \<open>failure_status\<close> is the status
  code the program answers with after each.
\<close>

datatype Failure =
    BodyReadFailure
  | VerifierCreationFailure
  | VerifierWriteFailure
  | SignatureMismatch
  | InvalidTimestamp
  | StaleTimestamp
  | PayloadParseFailure
  | ChallengeUnmarshalFailure
  | OutboundPostFailure

definition handler_failure :: "'v Lib \<Rightarrow> State \<Rightarrow> Failure option" where
  "handler_failure lib s =
     (case ParseEvent lib (body_bytes s) of
        Inl e \<Rightarrow> Some PayloadParseFailure
      | Inr ev \<Rightarrow>
          if Type ev = URLVerification then
            (case Unmarshal lib (body_bytes s) of
               Inl e \<Rightarrow> Some ChallengeUnmarshalFailure
             | Inr r \<Rightarrow> None)
          else if Type ev = CallbackEvent then
            (case InnerEvent_Data ev of
               AppMention m \<Rightarrow>
                 (case PostMessage lib (slackClient s) (Channel m) (mention_reply m) of
                    Some e \<Rightarrow> Some OutboundPostFailure
                  | None \<Rightarrow> None)
             | OtherEvent \<Rightarrow> None)
          else None)"

definition detected :: "'v Lib \<Rightarrow> Time \<Rightarrow> State \<Rightarrow> Failure option" where
  "detected lib now s =
     (case signature_check lib s of
        BodyUnreadable \<Rightarrow> Some BodyReadFailure
      | NoVerifier \<Rightarrow> Some VerifierCreationFailure
      | WriteFailed \<Rightarrow> Some VerifierWriteFailure
      | Mismatch \<Rightarrow> Some SignatureMismatch
      | Verified \<Rightarrow>
          (case ParseInt (GetHeader s ''X-Slack-Request-Timestamp'') of
             Inl e \<Rightarrow> Some InvalidTimestamp
           | Inr t \<Rightarrow> if too_old now t then Some StaleTimestamp else handler_failure lib s))"

fun failure_status :: "Failure \<Rightarrow> int" where
  "failure_status BodyReadFailure = 400"
| "failure_status VerifierCreationFailure = 500"
| "failure_status VerifierWriteFailure = 500"
| "failure_status SignatureMismatch = 401"
| "failure_status InvalidTimestamp = 400"
| "failure_status StaleTimestamp = 401"
| "failure_status PayloadParseFailure = 500"
| "failure_status ChallengeUnmarshalFailure = 500"
| "failure_status OutboundPostFailure = 200"

subsection \<open>A stand-in library and example requests\<close>

text \<open>
  To run the model on examples, the library parameters are filled with a small
  stand-in. Its verifier keeps the signature of the request and the text hashed so
  far; the stand-in for HMAC-SHA256 is the text itself, so a request is signed by
  \<open>stub_sign\<close>. Its parser knows the example payloads below and rejects every other
  body. Posting to the channel \<open>C-gone\<close> fails.
\<close>

definition stub_sign :: "string \<Rightarrow> string \<Rightarrow> string \<Rightarrow> string" where
  "stub_sign secret ts body = ''v0='' @ secret @ '':v0:'' @ ts @ '':'' @ body"

definition challenge_payload :: string where
  "challenge_payload = ''{type:url_verification,challenge:c0ffee}''"

definition mention_payload :: string where
  "mention_payload = ''{type:event_callback,event:{type:app_mention,user:U1,text:hi,channel:C1}}''"

definition mention_payload2 :: string where
  "mention_payload2 = ''{type:event_callback,event:{type:app_mention,user:U2,text:hi,channel:C1}}''"

definition mention_gone_payload :: string where
  "mention_gone_payload =
     ''{type:event_callback,event:{type:app_mention,user:U1,text:hi,channel:C-gone}}''"

definition reaction_payload :: string where
  "reaction_payload = ''{type:event_callback,event:{type:reaction_added,user:U1}}''"

definition garbage_payload :: string where
  "garbage_payload = ''{type:''"

definition stub_mention :: "string \<Rightarrow> string \<Rightarrow> EventsAPIEvent" where
  "stub_mention u ch =
     \<lparr>Type = CallbackEvent, InnerEvent_Type = ''app_mention'',
      InnerEvent_Data = AppMention \<lparr>User = u, Text = ''hi'', TimeStamp = ''1'', Channel = ch\<rparr>\<rparr>"

definition stub_ParseEvent :: "string \<Rightarrow> error + EventsAPIEvent" where
  "stub_ParseEvent b =
     (if b = challenge_payload then
        Inr \<lparr>Type = URLVerification, InnerEvent_Type = [], InnerEvent_Data = OtherEvent\<rparr>
      else if b = mention_payload then Inr (stub_mention ''U1'' ''C1'')
      else if b = mention_payload2 then Inr (stub_mention ''U2'' ''C1'')
      else if b = mention_gone_payload then Inr (stub_mention ''U1'' ''C-gone'')
      else if b = reaction_payload then
        Inr \<lparr>Type = CallbackEvent, InnerEvent_Type = ''reaction_added'',
             InnerEvent_Data = OtherEvent\<rparr>
      else Inl (LibError ''unexpected end of JSON input''))"

definition stub_lib :: "(string \<times> string) Lib" where
  "stub_lib =
     \<lparr>NewSecretsVerifier = (\<lambda>h secret.
        case (h ''X-Slack-Signature'', h ''X-Slack-Request-Timestamp'') of
          (Some sg, Some ts) \<Rightarrow> Inr (sg, ''v0='' @ secret @ '':v0:'' @ ts @ '':'')
        | _ \<Rightarrow> Inl (LibError ''missing headers'')),
      Write = (\<lambda>v b. Inr (fst v, snd v @ b)),
      Ensure = (\<lambda>v. if fst v = snd v then None else Some (LibError ''invalid signature'')),
      ParseEvent = stub_ParseEvent,
      Unmarshal = (\<lambda>b. if b = challenge_payload then Inr \<lparr>Challenge = ''c0ffee''\<rparr>
                        else Inl (LibError ''invalid character'')),
      PostMessage = (\<lambda>client ch txt.
        if ch = ''C-gone'' then Some (LibError ''channel_not_found'') else None)\<rparr>"

definition request :: "Body \<Rightarrow> Header \<Rightarrow> State" where
  \<comment> \<open>a fresh context for a request, with the secrets \<open>main\<close> has loaded\<close>
  "request b h =
     \<lparr>Request_Body = b, Request_Header = h, responses = [], aborted = False,
      slackClient = ''xoxb-token'', slackSigningSecret = ''s3cret'',
      outbound = [], logs = []\<rparr>"

definition signed_request :: "string \<Rightarrow> string \<Rightarrow> State" where
  \<comment> \<open>a request with timestamp \<open>ts\<close> and the signature of \<open>body\<close> under the secret\<close>
  "signed_request ts body =
     request \<lparr>pending = body, failure = None\<rparr>
       [''X-Slack-Request-Timestamp'' \<mapsto> ts,
        ''X-Slack-Signature'' \<mapsto> stub_sign ''s3cret'' ts body]"

definition forged_request :: "string \<Rightarrow> string \<Rightarrow> State" where
  \<comment> \<open>a request signed by someone who does not hold the signing secret\<close>
  "forged_request ts body =
     request \<lparr>pending = body, failure = None\<rparr>
       [''X-Slack-Request-Timestamp'' \<mapsto> ts,
        ''X-Slack-Signature'' \<mapsto> stub_sign ''guess'' ts body]"

definition unsigned_request :: "string \<Rightarrow> string \<Rightarrow> State" where
  \<comment> \<open>a request with a timestamp header and no signature header\<close>
  "unsigned_request ts body =
     request \<lparr>pending = body, failure = None\<rparr> [''X-Slack-Request-Timestamp'' \<mapsto> ts]"

definition clock :: Time where
  \<comment> \<open>Unix time 1700000000.5\<close>
  "clock = \<lparr>sec = unixToInternal + 1700000000, nsec = 500000000\<rparr>"

section \<open>Properties\<close>

subsection \<open>Unfolding sets\<close>

lemmas status_defs =
  StatusBadRequest_def StatusUnauthorized_def StatusInternalServerError_def StatusOK_def

lemmas ctx_defs = JSON_def Data_def Status_def Abort_def Log_def

lemmas fix_defs = stub_lib_def stub_ParseEvent_def stub_mention_def stub_sign_def
  request_def signed_request_def unsigned_request_def forged_request_def clock_def
  challenge_payload_def mention_payload_def mention_payload2_def mention_gone_payload_def
  reaction_payload_def garbage_payload_def

lemmas run_defs = serve_def verifySlackRequestMiddleware_def handleSlackEvents_def
  handle_callback_def post_reply_def mention_reply_def signature_check_def passes_def
  detected_def handler_failure_def body_bytes_def restored_def
  ReadAll_def NewBuffer_def GetHeader_def ctx_defs status_defs
  URLVerification_def CallbackEvent_def
  too_old_def Since_def Sub_def Unix_def Before_def int64_def unixToInternal_def
  minDuration_def maxDuration_def Minute_def Second_def age_def valid_clock_def
  ParseInt_def ParseUint_def digit_def maxUint64_def Let_def

subsection \<open>Parsing and time\<close>

lemma ParseUint_loop_nonneg:
  "0 \<le> n \<Longrightarrow> ParseUint_loop n cs = Inr m \<Longrightarrow> 0 \<le> m"
proof (induction cs arbitrary: n)
  case Nil
  then show ?case by simp
next
  case (Cons c cs)
  from Cons.prems(2) obtain d where d: "digit c = Some d"
    and r: "ParseUint_loop (n * 10 + d) cs = Inr m"
    by (auto simp: Let_def split: option.splits if_splits)
  from d have "0 \<le> d" by (auto simp: digit_def Let_def split: if_splits)
  with Cons.prems(1) have "0 \<le> n * 10 + d" by simp
  then show ?case using r by (rule Cons.IH)
qed

text \<open>A timestamp that parses is an \<open>int64\<close>.\<close>

lemma ParseInt_range:
  assumes "ParseInt s = Inr t"
  shows "- (2 ^ 63) \<le> t \<and> t \<le> 2 ^ 63 - 1"
proof -
  from assms obtain un s' where u: "ParseUint s' = Inr un"
    and t: "t = un \<and> un < 2 ^ 63 \<or> t = - un \<and> un \<le> 2 ^ 63"
    by (auto simp: ParseInt_def Let_def split: if_splits sum.splits)
  from u have "0 \<le> un"
    by (auto simp: ParseUint_def split: if_splits dest: ParseUint_loop_nonneg [rotated])
  with t show ?thesis by auto
qed

lemma ts_stale: "ParseInt ''1699990000'' = Inr 1699990000"
  by (simp add: ParseInt_def ParseUint_def digit_def maxUint64_def Let_def)


text \<open>
  Where \<open>time.Unix\<close> does not wrap around, the condition of the replay check is the
  comparison of the exact age with five minutes: saturation of the \<open>Duration\<close> keeps
  the side of the comparison.
\<close>

lemma too_old_iff:
  assumes "valid_clock now" and "- (2 ^ 63) \<le> t" and "t \<le> 2 ^ 63 - 1 - unixToInternal"
  shows "too_old now t = (5 * Minute < age now t)"
proof -
  have w: "int64 (t + unixToInternal) = t + unixToInternal"
    using assms(2,3) by (simp add: int64_def unixToInternal_def)
  show ?thesis
    using assms(1)
    by (auto simp: too_old_def Since_def Sub_def Unix_def w Let_def age_def Before_def
          valid_clock_def Minute_def Second_def minDuration_def maxDuration_def)
qed

lemma stale_in_range:
  assumes "valid_clock now" and "5 * Minute < age now t"
  shows "t \<le> 2 ^ 63 - 1 - unixToInternal"
  using assms by (auto simp: valid_clock_def age_def Minute_def Second_def)

subsection \<open>The two outcomes of the middleware\<close>

lemma ReadAll_NewBuffer: "ReadAll (NewBuffer b) = (Inr b, NewBuffer [])"
  by (simp add: ReadAll_def NewBuffer_def)

lemma middleware_passes:
  "passes lib now s \<Longrightarrow> verifySlackRequestMiddleware lib now next s = next (restored s)"
  by (auto simp: passes_def signature_check_def verifySlackRequestMiddleware_def restored_def
        body_bytes_def GetHeader_def split: sum.splits option.splits prod.splits if_splits)

text \<open>
  A request that does not pass is answered by the middleware itself: the resulting
  state is the same whatever handlers are pending, so none of them has run.
\<close>

lemma middleware_rejects:
  assumes "\<not> passes lib now s"
  shows "\<exists>st r f. (\<forall>next. verifySlackRequestMiddleware lib now next s = st) \<and>
           aborted st \<and> outbound st = outbound s \<and>
           slackClient st = slackClient s \<and> slackSigningSecret st = slackSigningSecret s \<and>
           responses st = responses s @ [r] \<and>
           detected lib now s = Some f \<and> status_of r = failure_status f \<and>
           f \<noteq> PayloadParseFailure \<and> f \<noteq> ChallengeUnmarshalFailure \<and> f \<noteq> OutboundPostFailure"
  using assms
  by (auto simp: passes_def signature_check_def detected_def verifySlackRequestMiddleware_def
        GetHeader_def ctx_defs status_defs case_prod_unfold Let_def
        split: sum.splits option.splits if_splits)

lemma serve_passes: "passes lib now s \<Longrightarrow> serve lib now s = handleSlackEvents lib (restored s)"
  by (simp add: serve_def middleware_passes)

lemma detected_passes: "passes lib now s \<Longrightarrow> detected lib now s = handler_failure lib s"
  by (auto simp: passes_def detected_def split: sum.splits)

subsection \<open>The handler behind the middleware\<close>

lemma handler_outcome:
  "\<exists>r. responses (handleSlackEvents lib (restored s)) = responses s @ [r] \<and>
       status_of r = (case handler_failure lib s of None \<Rightarrow> 200 | Some f \<Rightarrow> failure_status f) \<and>
       slackClient (handleSlackEvents lib (restored s)) = slackClient s \<and>
       slackSigningSecret (handleSlackEvents lib (restored s)) = slackSigningSecret s"
  by (auto simp: handleSlackEvents_def restored_def ReadAll_NewBuffer handler_failure_def
        handle_callback_def post_reply_def ctx_defs status_defs Let_def
        split: sum.splits option.splits InnerEventData.splits)

lemma handler_outbound:
  "outbound (handleSlackEvents lib (restored s)) = outbound s \<or>
   (\<exists>p. outbound (handleSlackEvents lib (restored s)) = outbound s @ [p])"
  by (auto simp: handleSlackEvents_def restored_def ReadAll_NewBuffer
        handle_callback_def post_reply_def ctx_defs Let_def
        split: sum.splits option.splits InnerEventData.splits)

lemma handler_failure_outbound:
  assumes "handler_failure lib s = Some f"
  shows "if f = OutboundPostFailure
         then (\<exists>p. outbound (handleSlackEvents lib (restored s)) = outbound s @ [p])
         else outbound (handleSlackEvents lib (restored s)) = outbound s"
  using assms
  by (auto simp: handleSlackEvents_def restored_def ReadAll_NewBuffer handler_failure_def
        handle_callback_def post_reply_def ctx_defs Let_def
        split: sum.splits option.splits InnerEventData.splits if_splits)

subsection \<open>What the response does not depend on\<close>

lemma signature_check_frame:
  "signature_check (lib\<lparr>PostMessage := p\<rparr>) (s\<lparr>outbound := ob, logs := lg\<rparr>) =
   signature_check lib s"
  by (simp add: signature_check_def cong: sum.case_cong option.case_cong)

lemma passes_frame:
  "passes (lib\<lparr>PostMessage := p\<rparr>) now (s\<lparr>outbound := ob, logs := lg\<rparr>) = passes lib now s"
  by (simp add: passes_def signature_check_frame GetHeader_def)

lemma handler_responses_frame:
  "responses (handleSlackEvents (lib\<lparr>PostMessage := p\<rparr>)
     (restored (s\<lparr>outbound := ob, logs := lg\<rparr>))) =
   responses (handleSlackEvents lib (restored s))"
  by (auto simp: handleSlackEvents_def restored_def body_bytes_def ReadAll_NewBuffer
        handle_callback_def post_reply_def ctx_defs Let_def
        split: sum.splits option.splits InnerEventData.splits)

lemma middleware_responses_frame:
  "\<not> passes lib now s \<Longrightarrow>
   responses (verifySlackRequestMiddleware (lib\<lparr>PostMessage := p\<rparr>) now next
     (s\<lparr>outbound := ob, logs := lg\<rparr>)) =
   responses (verifySlackRequestMiddleware lib now next' s)"
  by (auto simp: passes_def signature_check_def verifySlackRequestMiddleware_def
        GetHeader_def ctx_defs case_prod_unfold Let_def
        split: sum.splits option.splits if_splits)

lemma serve_globals:
  "slackClient (serve lib now s) = slackClient s \<and>
   slackSigningSecret (serve lib now s) = slackSigningSecret s"
proof (cases "passes lib now s")
  case True
  from handler_outcome [of lib s] show ?thesis
    unfolding serve_passes [OF True] by blast
next
  case False
  from middleware_rejects [OF False] obtain st
    where st: "\<forall>next. verifySlackRequestMiddleware lib now next s = st"
      "slackClient st = slackClient s" "slackSigningSecret st = slackSigningSecret s"
    by blast
  then have "serve lib now s = st" by (simp add: serve_def)
  with st show ?thesis by simp
qed

section \<open>The claims\<close>

subsection \<open>C1: requests whose signature is not verified\<close>

text \<open>
  Claim C1 says that a request whose signature does not verify is answered 401 and
  aborted, and that the handler runs only when the verification succeeded. The
  status is 401 only when \<open>Ensure\<close> reports the mismatch. A request for which no
  verifier can be created, such as one without a signature header, is answered 500,
  and one whose body cannot be read is answered 400.

  C1, as the code has it: when the signature of a request is not verified, the
  middleware ends in one fixed state whatever handlers are pending (so
  \<open>handleSlackEvents\<close> has not run), that state is aborted, nothing was posted, and
  exactly one response was written, with status 400 (body unreadable), 500 (no
  verifier, or the write to it failed) or 401 (mismatch).
\<close>

theorem C1_unverified_request_rejected:
  assumes "signature_check lib s \<noteq> Verified"
  shows "\<exists>st r. (\<forall>next. verifySlackRequestMiddleware lib now next s = st) \<and>
           aborted st \<and> outbound st = outbound s \<and> responses st = responses s @ [r] \<and>
           status_of r =
             (case signature_check lib s of
                BodyUnreadable \<Rightarrow> 400 | NoVerifier \<Rightarrow> 500 | WriteFailed \<Rightarrow> 500 | _ \<Rightarrow> 401)"
proof -
  from assms have "\<not> passes lib now s" by (simp add: passes_def)
  from middleware_rejects [OF this] obtain st r f
    where st: "\<forall>next. verifySlackRequestMiddleware lib now next s = st"
      "aborted st" "outbound st = outbound s" "responses st = responses s @ [r]"
      and f: "detected lib now s = Some f" "status_of r = failure_status f"
    by blast
  from assms f have "status_of r =
      (case signature_check lib s of
         BodyUnreadable \<Rightarrow> 400 | NoVerifier \<Rightarrow> 500 | WriteFailed \<Rightarrow> 500 | _ \<Rightarrow> 401)"
    by (auto simp: detected_def split: SignatureCheck.splits)
  with st show ?thesis by blast
qed

text \<open>A request signed without the secret: the mismatch is answered 401.\<close>

theorem C1_forged_signature_rejected:
  "signature_check stub_lib (forged_request ''1700000000'' mention_payload) \<noteq> Verified \<and>
   (\<exists>st r. (\<forall>next. verifySlackRequestMiddleware stub_lib clock next
                     (forged_request ''1700000000'' mention_payload) = st) \<and>
            aborted st \<and> outbound st = [] \<and> responses st = [r] \<and> status_of r = 401)"
proof -
  have m: "signature_check stub_lib (forged_request ''1700000000'' mention_payload) = Mismatch"
    by (simp add: signature_check_def ReadAll_def fix_defs)
  then have h: "signature_check stub_lib (forged_request ''1700000000'' mention_payload) \<noteq> Verified"
    by simp
  from C1_unverified_request_rejected [OF h, of clock] m h show ?thesis
    by (simp add: forged_request_def request_def)
qed

text \<open>A request without a signature header: the answer is 500, not 401.\<close>

theorem C1_unsigned_request_answered_500:
  "signature_check stub_lib (unsigned_request ''1700000000'' mention_payload) = NoVerifier \<and>
   aborted (serve stub_lib clock (unsigned_request ''1700000000'' mention_payload)) \<and>
   responses (serve stub_lib clock (unsigned_request ''1700000000'' mention_payload)) =
     [RespJSON 500 [(''error'', ''Internal server error'')]]"
  by (simp add: run_defs fix_defs)

subsection \<open>C2: stale timestamps\<close>

text \<open>
  Claim C2 says that a request whose timestamp is older than five minutes is
  answered 401 and aborted. The replay check is the last check of the middleware, so
  a stale request that fails an earlier check gets that check's status.

  C2, as the code has it: a request whose timestamp header parses and is more than
  five minutes old never reaches a pending handler; the middleware aborts, posts
  nothing and writes exactly one response, with status 401 unless the body is
  unreadable (400) or the verifier cannot be created or written (500).
\<close>

theorem C2_stale_request_rejected:
  assumes "valid_clock now"
    and "ParseInt (GetHeader s ''X-Slack-Request-Timestamp'') = Inr t"
    and "5 * Minute < age now t"
  shows "\<exists>st r. (\<forall>next. verifySlackRequestMiddleware lib now next s = st) \<and>
           aborted st \<and> outbound st = outbound s \<and> responses st = responses s @ [r] \<and>
           status_of r =
             (case signature_check lib s of
                BodyUnreadable \<Rightarrow> 400 | NoVerifier \<Rightarrow> 500 | WriteFailed \<Rightarrow> 500
              | Mismatch \<Rightarrow> 401 | Verified \<Rightarrow> 401)"
proof -
  from assms(2) have "- (2 ^ 63) \<le> t" using ParseInt_range by blast
  moreover from assms(1,3) have "t \<le> 2 ^ 63 - 1 - unixToInternal" by (rule stale_in_range)
  ultimately have old: "too_old now t" using assms(1,3) by (simp add: too_old_iff)
  with assms(2) have "\<not> passes lib now s" by (simp add: passes_def)
  from middleware_rejects [OF this] obtain st r f
    where st: "\<forall>next. verifySlackRequestMiddleware lib now next s = st"
      "aborted st" "outbound st = outbound s" "responses st = responses s @ [r]"
      and f: "detected lib now s = Some f" "status_of r = failure_status f"
    by blast
  from old assms(2) f have "status_of r =
      (case signature_check lib s of
         BodyUnreadable \<Rightarrow> 400 | NoVerifier \<Rightarrow> 500 | WriteFailed \<Rightarrow> 500
       | Mismatch \<Rightarrow> 401 | Verified \<Rightarrow> 401)"
    by (auto simp: detected_def split: SignatureCheck.splits)
  with st show ?thesis by blast
qed

text \<open>A correctly signed request, 10000.5 seconds old: 401.\<close>

theorem C2_stale_signed_request_rejected:
  "valid_clock clock \<and>
   ParseInt (GetHeader (signed_request ''1699990000'' mention_payload)
     ''X-Slack-Request-Timestamp'') = Inr 1699990000 \<and>
   5 * Minute < age clock 1699990000 \<and>
   (\<exists>st r. (\<forall>next. verifySlackRequestMiddleware stub_lib clock next
                     (signed_request ''1699990000'' mention_payload) = st) \<and>
            aborted st \<and> outbound st = [] \<and> responses st = [r] \<and> status_of r = 401)"
proof -
  have c: "valid_clock clock"
    by (simp add: valid_clock_def clock_def unixToInternal_def Second_def)
  have p: "ParseInt (GetHeader (signed_request ''1699990000'' mention_payload)
      ''X-Slack-Request-Timestamp'') = Inr 1699990000"
    by (simp add: GetHeader_def signed_request_def request_def ts_stale)
  have a: "5 * Minute < age clock 1699990000"
    by (simp add: age_def clock_def Minute_def Second_def)
  have v: "signature_check stub_lib (signed_request ''1699990000'' mention_payload) = Verified"
    by (simp add: signature_check_def ReadAll_def fix_defs)
  from C2_stale_request_rejected [OF c p a, of stub_lib] c p a v show ?thesis
    by (simp add: signed_request_def request_def)
qed

text \<open>The same stale timestamp on a request without a signature header: 500.\<close>

theorem C2_stale_unsigned_request_answered_500:
  "ParseInt (GetHeader (unsigned_request ''1699990000'' mention_payload)
     ''X-Slack-Request-Timestamp'') = Inr 1699990000 \<and>
   5 * Minute < age clock 1699990000 \<and>
   aborted (serve stub_lib clock (unsigned_request ''1699990000'' mention_payload)) \<and>
   responses (serve stub_lib clock (unsigned_request ''1699990000'' mention_payload)) =
     [RespJSON 500 [(''error'', ''Internal server error'')]]"
  by (simp add: run_defs fix_defs)

subsection \<open>C3: the reply to a mention\<close>

text \<open>
  Claim C3 says that a mention is answered by exactly one post, and that the text of
  the post is the same for every mention. One post it is; its text is built from the
  user and the text of the event.

  C3, as the code has it: for a request that passes the middleware and parses as a
  callback whose inner event is an app mention, exactly one message is posted, to
  the channel of the event, with the text \<open>Hello <@USER>! You mentioned me: TEXT\<close>
  made of the event's user and text, and the request is answered 200.
\<close>

theorem C3_mention_reply:
  assumes "passes lib now s"
    and "ParseEvent lib (body_bytes s) = Inr ev"
    and "Type ev = CallbackEvent"
    and "InnerEvent_Data ev = AppMention m"
  shows "outbound (serve lib now s) =
           outbound s @ [(Channel m, ''Hello <@'' @ User m @ ''>! You mentioned me: '' @ Text m)] \<and>
         responses (serve lib now s) = responses s @ [RespStatus 200]"
  using assms(2-4)
  by (auto simp: serve_passes [OF assms(1)] handleSlackEvents_def restored_def ReadAll_NewBuffer
        handle_callback_def post_reply_def mention_reply_def ctx_defs status_defs Let_def
        URLVerification_def CallbackEvent_def split: option.splits)

theorem C3_mention_by_U1_answered:
  "passes stub_lib clock (signed_request ''1700000000'' mention_payload) \<and>
   ParseEvent stub_lib (body_bytes (signed_request ''1700000000'' mention_payload)) =
     Inr (stub_mention ''U1'' ''C1'') \<and>
   outbound (serve stub_lib clock (signed_request ''1700000000'' mention_payload)) =
     [(''C1'', ''Hello <@U1>! You mentioned me: hi'')] \<and>
   responses (serve stub_lib clock (signed_request ''1700000000'' mention_payload)) =
     [RespStatus 200]"
proof -
  have p: "passes stub_lib clock (signed_request ''1700000000'' mention_payload)"
    by (simp add: run_defs fix_defs)
  have e: "ParseEvent stub_lib (body_bytes (signed_request ''1700000000'' mention_payload)) =
      Inr (stub_mention ''U1'' ''C1'')"
    by (simp add: body_bytes_def ReadAll_def fix_defs)
  have t: "Type (stub_mention ''U1'' ''C1'') = CallbackEvent"
    by (simp add: stub_mention_def)
  have d: "InnerEvent_Data (stub_mention ''U1'' ''C1'') =
      AppMention \<lparr>User = ''U1'', Text = ''hi'', TimeStamp = ''1'', Channel = ''C1''\<rparr>"
    by (simp add: stub_mention_def)
  from C3_mention_reply [OF p e t d] p e show ?thesis
    by (simp add: signed_request_def request_def)
qed

text \<open>Two mentions that differ in the user only get different reply texts.\<close>

theorem C3_reply_text_depends_on_user:
  "passes stub_lib clock (signed_request ''1700000000'' mention_payload) \<and>
   passes stub_lib clock (signed_request ''1700000000'' mention_payload2) \<and>
   map snd (outbound (serve stub_lib clock (signed_request ''1700000000'' mention_payload))) =
     [''Hello <@U1>! You mentioned me: hi''] \<and>
   map snd (outbound (serve stub_lib clock (signed_request ''1700000000'' mention_payload2))) =
     [''Hello <@U2>! You mentioned me: hi'']"
  by (simp add: run_defs fix_defs)

subsection \<open>C4: failures and their status codes\<close>

text \<open>
  Claim C4 says that every failure the program detects (body read, verifier
  creation, signature mismatch, bad timestamp, payload parse, outbound post) is
  answered by an HTTP error status, and by nothing else. That holds for all of them
  but the last: when the post fails, the error is logged and the request is
  acknowledged with 200 like any other event.

  C4, as the code has it: whatever failure is detected first on a request, exactly
  one response is written, with the status \<open>failure_status\<close> gives for that failure.
  For every failure but a failed post this is an error status (400, 401 or 500) and
  nothing is posted. For a failed post the status is 200, and the message was sent
  once: there is no second attempt.
\<close>

theorem C4_failures_answered_by_status:
  assumes "detected lib now s = Some f"
  shows "\<exists>r. responses (serve lib now s) = responses s @ [r] \<and>
           status_of r = failure_status f \<and>
           (if f = OutboundPostFailure
            then status_of r = 200 \<and> (\<exists>p. outbound (serve lib now s) = outbound s @ [p])
            else 400 \<le> status_of r \<and> outbound (serve lib now s) = outbound s)"
proof (cases "passes lib now s")
  case True
  with assms have hf: "handler_failure lib s = Some f" by (simp add: detected_passes)
  from handler_outcome [of lib s] hf obtain r
    where r: "responses (handleSlackEvents lib (restored s)) = responses s @ [r]"
      "status_of r = failure_status f"
    by auto
  from handler_failure_outbound [OF hf] r show ?thesis
    unfolding serve_passes [OF True] by (cases f) auto
next
  case False
  from middleware_rejects [OF False] assms obtain st r
    where st: "\<forall>next. verifySlackRequestMiddleware lib now next s = st"
      "outbound st = outbound s" "responses st = responses s @ [r]"
      "status_of r = failure_status f" "f \<noteq> OutboundPostFailure"
    by auto
  then have "serve lib now s = st" by (simp add: serve_def)
  with st show ?thesis by (cases f) auto
qed

text \<open>A verified request whose payload does not parse: 500, nothing posted.\<close>

theorem C4_parse_failure_answered_500:
  "detected stub_lib clock (signed_request ''1700000000'' garbage_payload) =
     Some PayloadParseFailure \<and>
   (\<exists>r. responses (serve stub_lib clock (signed_request ''1700000000'' garbage_payload)) = [r] \<and>
        status_of r = 500) \<and>
   outbound (serve stub_lib clock (signed_request ''1700000000'' garbage_payload)) = []"
proof -
  have d: "detected stub_lib clock (signed_request ''1700000000'' garbage_payload) =
      Some PayloadParseFailure"
    by (simp add: run_defs fix_defs)
  from C4_failures_answered_by_status [OF d] d show ?thesis
    by (auto simp: signed_request_def request_def)
qed

text \<open>A mention in a channel to which the post fails: the failure is logged, the answer is 200.\<close>

theorem C4_post_failure_answered_200:
  "detected stub_lib clock (signed_request ''1700000000'' mention_gone_payload) =
     Some OutboundPostFailure \<and>
   responses (serve stub_lib clock (signed_request ''1700000000'' mention_gone_payload)) =
     [RespStatus 200] \<and>
   logs (serve stub_lib clock (signed_request ''1700000000'' mention_gone_payload)) =
     [''Received app_mention event'', ''Error posting message to Slack'']"
  by (simp add: run_defs fix_defs)

subsection \<open>C5: callbacks other than mentions\<close>



subsection \<open>C6: one response, at most one post\<close>

text \<open>
  Claim C6: processing a request writes exactly one response status and makes at
  most one outbound call. This holds for every request to the route, every clock
  reading and every behaviour of the library.
\<close>

theorem C6_one_response_at_most_one_post:
  "(\<exists>r. responses (serve lib now s) = responses s @ [r]) \<and>
   (outbound (serve lib now s) = outbound s \<or>
    (\<exists>p. outbound (serve lib now s) = outbound s @ [p]))"
proof (cases "passes lib now s")
  case True
  from handler_outcome [of lib s] handler_outbound [of lib s] show ?thesis
    unfolding serve_passes [OF True] by blast
next
  case False
  from middleware_rejects [OF False] obtain st r
    where st: "\<forall>next. verifySlackRequestMiddleware lib now next s = st"
      "outbound st = outbound s" "responses st = responses s @ [r]"
    by blast
  then have "serve lib now s = st" by (simp add: serve_def)
  with st show ?thesis by simp
qed

subsection \<open>C7: no state between requests\<close>

text \<open>
  Claim C7: the middleware and the handler leave the two global variables as they
  found them, and the response is a function of the request, the secrets and the
  clock reading. In the model, what can differ between two runs on the same request
  is the answer of the Web API to the post, and what earlier requests have left
  behind (the messages posted and the lines logged); the response written depends on
  neither.
\<close>

theorem C7_stateless_deterministic:
  "slackClient (serve lib now s) = slackClient s \<and>
   slackSigningSecret (serve lib now s) = slackSigningSecret s \<and>
   responses (serve (lib\<lparr>PostMessage := p\<rparr>) now (s\<lparr>outbound := ob, logs := lg\<rparr>)) =
   responses (serve (lib\<lparr>PostMessage := q\<rparr>) now s)"
proof -
  have frame: "responses (serve (lib\<lparr>PostMessage := p'\<rparr>) now
        (s\<lparr>outbound := ob', logs := lg'\<rparr>)) = responses (serve lib now s)" for p' ob' lg'
  proof (cases "passes lib now s")
    case True
    then have "passes (lib\<lparr>PostMessage := p'\<rparr>) now (s\<lparr>outbound := ob', logs := lg'\<rparr>)"
      by (simp add: passes_frame)
    then show ?thesis
      by (simp add: serve_passes True handler_responses_frame)
  next
    case False
    then show ?thesis
      by (simp add: serve_def middleware_responses_frame)
  qed
  have "responses (serve (lib\<lparr>PostMessage := q\<rparr>) now s) = responses (serve lib now s)"
    using frame [where p' = q and ob' = "outbound s" and lg' = "logs s"] by simp
  with frame [where p' = p and ob' = ob and lg' = lg] serve_globals [of lib now s]
  show ?thesis by simp
qed

subsection \<open>C8: the handler reads the bytes that were verified\<close>



subsection \<open>C9: the replay check looks back only\<close>




subsection \<open>C10: the URL verification challenge\<close>

text \<open>
  Claim C10: for a request that passes the middleware and whose payload parses as a
  URL verification event (\<open>ParseEvent\<close> gives that type and the payload unmarshals
  into a \<open>ChallengeResponse\<close>), the handler answers 200 with content type
  \<open>text/plain\<close> and the challenge string as body, and posts nothing.
\<close>

theorem C10_url_verification_challenge:
  assumes "passes lib now s"
    and "ParseEvent lib (body_bytes s) = Inr ev"
    and "Type ev = URLVerification"
    and "Unmarshal lib (body_bytes s) = Inr r"
  shows "responses (serve lib now s) = responses s @ [RespData 200 ''text/plain'' (Challenge r)] \<and>
         outbound (serve lib now s) = outbound s"
  using assms(2-4)
  by (auto simp: serve_passes [OF assms(1)] handleSlackEvents_def restored_def ReadAll_NewBuffer
        ctx_defs status_defs Let_def)

theorem C10_challenge_echoed:
  "passes stub_lib clock (signed_request ''1700000000'' challenge_payload) \<and>
   responses (serve stub_lib clock (signed_request ''1700000000'' challenge_payload)) =
     [RespData 200 ''text/plain'' ''c0ffee''] \<and>
   outbound (serve stub_lib clock (signed_request ''1700000000'' challenge_payload)) = []"
proof -
  let ?ev = "\<lparr>Type = URLVerification, InnerEvent_Type = [], InnerEvent_Data = OtherEvent\<rparr>"
  have p: "passes stub_lib clock (signed_request ''1700000000'' challenge_payload)"
    by (simp add: run_defs fix_defs)
  have e: "ParseEvent stub_lib (body_bytes (signed_request ''1700000000'' challenge_payload)) =
      Inr ?ev"
    by (simp add: body_bytes_def ReadAll_def fix_defs)
  have t: "Type ?ev = URLVerification" by simp
  have u: "Unmarshal stub_lib (body_bytes (signed_request ''1700000000'' challenge_payload)) =
      Inr \<lparr>Challenge = ''c0ffee''\<rparr>"
    by (simp add: body_bytes_def ReadAll_def fix_defs)
  from C10_url_verification_challenge [OF p e t u] p show ?thesis
    by (simp add: signed_request_def request_def)
qed

end
